theory Spec2Isabelle
  imports Main
begin

section \<open>Data model\<close>

text \<open>
  The generator reads Kubernetes CustomResourceDefinitions (package apiextensions/v1) and
  produces Crossplane CompositeResourceDefinitions (package apiextensions/v2). Both struct
  families are declared outside the repository; the records below carry the fields the
  generator reads or writes, under the Go field names with a prefix per struct (record
  fields share one name space). A Go pointer is an \<open>option\<close> (\<open>None\<close> is nil), a Go
  slice is a list (the nil slice is \<open>[]\<close>), a Go \<open>map[string]string\<close> is a partial map
  (the nil map is the empty map), a \<open>[]byte\<close> is a \<open>string\<close>.

  The OpenAPI schema type \<open>JSONSchemaProps\<close> is only handed to \<open>json.Marshal\<close>; it is
  the type parameter \<open>'s\<close>, and the encoder is a parameter \<open>marshal\<close> of the mapper.
\<close>

datatype error = ErrorString string | WrapError string error

type_synonym bytes = string

record GroupKind =
  gk_Group :: string
  gk_Kind :: string

record CustomResourceColumnDefinition =
  col_Name :: string
  col_Type :: string
  col_Format :: string
  col_Description :: string
  col_Priority :: int
  col_JSONPath :: string

record CustomResourceDefinitionNames =
  names_Plural :: string
  names_Singular :: string
  names_ShortNames :: "string list"
  names_Kind :: string
  names_ListKind :: string
  names_Categories :: "string list"

record WebhookConversion =
  wh_ClientConfigURL :: "string option"
  wh_ConversionReviewVersions :: "string list"

record CustomResourceConversion =
  conv_Strategy :: string
  conv_Webhook :: "WebhookConversion option"

record 's CustomResourceValidation =
  crv_OpenAPIV3Schema :: "'s option"

record 's CustomResourceDefinitionVersion =
  crdv_Name :: string
  crdv_Served :: bool
  crdv_Storage :: bool
  crdv_Deprecated :: bool
  crdv_DeprecationWarning :: "string option"
  crdv_Schema :: "'s CustomResourceValidation option"
  crdv_AdditionalPrinterColumns :: "CustomResourceColumnDefinition list"

record 's CustomResourceDefinitionSpec =
  crds_Group :: string
  crds_Names :: CustomResourceDefinitionNames
  crds_Scope :: string
  crds_Versions :: "'s CustomResourceDefinitionVersion list"
  crds_Conversion :: "CustomResourceConversion option"

record 's CustomResourceDefinition =
  crd_Name :: string
  crd_Annotations :: "string \<rightharpoonup> string"
  crd_Labels :: "string \<rightharpoonup> string"
  crd_Spec :: "'s CustomResourceDefinitionSpec"

record CompositeResourceValidation =
  xrv_OpenAPIV3Schema :: bytes

record CompositeResourceDefinitionVersion =
  xrdv_Name :: string
  xrdv_Referenceable :: bool
  xrdv_Served :: bool
  xrdv_Deprecated :: "bool option"
  xrdv_DeprecationWarning :: "string option"
  xrdv_Schema :: "CompositeResourceValidation option"
  xrdv_AdditionalPrinterColumns :: "CustomResourceColumnDefinition list"

record CompositeResourceDefinitionSpec =
  xrds_Group :: string
  xrds_Names :: CustomResourceDefinitionNames
  xrds_Versions :: "CompositeResourceDefinitionVersion list"
  xrds_Conversion :: "CustomResourceConversion option"

record CompositeResourceDefinition =
  xrd_APIVersion :: string
  xrd_Kind :: string
  xrd_Name :: string
  xrd_Annotations :: "string \<rightharpoonup> string"
  xrd_Labels :: "string \<rightharpoonup> string"
  xrd_Spec :: CompositeResourceDefinitionSpec

text \<open>
  Modelled from the spec: the two constants that \<open>CRDToXRDv2\<close> writes into the type
  metadata are declared in the Crossplane module, not in this repository. The spec calls
  the output a Crossplane \<open>CompositeResourceDefinition\<close> of the apiextensions v2 API:
  \<open>SchemeGroupVersion\<close> is the group \<open>apiextensions.crossplane.io\<close> at version \<open>v2\<close>, its
  \<open>String()\<close> joins the two with a slash, and \<open>CompositeResourceDefinitionKind\<close> is the
  name of the struct type.
\<close>

definition xpv2_Group :: string where
  "xpv2_Group = ''apiextensions.crossplane.io''"

definition xpv2_Version :: string where
  "xpv2_Version = ''v2''"

definition SchemeGroupVersion_String :: string where
  "SchemeGroupVersion_String = xpv2_Group @ ''/'' @ xpv2_Version"

definition CompositeResourceDefinitionKind :: string where
  "CompositeResourceDefinitionKind = ''CompositeResourceDefinition''"

section \<open>The CRD to XRD mapper\<close>

text \<open>
  \<open>convertSchema\<close>: nil when the validation or its schema is nil; nil as well when the
  encoder fails (the error is dropped); otherwise the encoded bytes.
\<close>

definition convertSchema ::
  "('s \<Rightarrow> error + bytes) \<Rightarrow> 's CustomResourceValidation option \<Rightarrow> CompositeResourceValidation option"
where
  "convertSchema marshal crdSchema =
     (case crdSchema of
        None \<Rightarrow> None
      | Some v \<Rightarrow>
          (case crv_OpenAPIV3Schema v of
             None \<Rightarrow> None
           | Some s \<Rightarrow>
               (case marshal s of
                  Inl err \<Rightarrow> None
                | Inr raw \<Rightarrow> Some \<lparr>xrv_OpenAPIV3Schema = raw\<rparr>)))"

text \<open>
  The body of the loop of \<open>convertVersions\<close>, for one input version. The struct literal
  leaves the two deprecation fields and the printer columns at their zero value; the two
  \<open>if\<close> statements then fill them. \<open>&crdVer.Deprecated\<close> points at the loop variable,
  which is a fresh copy in every iteration (Go 1.22 loop semantics, which the Crossplane v2
  dependency requires), so the pointee is the flag of this version.
\<close>

definition convertVersions_body ::
  "('s \<Rightarrow> error + bytes) \<Rightarrow> 's CustomResourceDefinitionVersion \<Rightarrow> CompositeResourceDefinitionVersion"
where
  "convertVersions_body marshal crdVer =
     (let xrdVer0 = \<lparr>xrdv_Name = crdv_Name crdVer,
                     xrdv_Referenceable = crdv_Storage crdVer,
                     xrdv_Served = crdv_Served crdVer,
                     xrdv_Deprecated = None,
                     xrdv_DeprecationWarning = None,
                     xrdv_Schema = convertSchema marshal (crdv_Schema crdVer),
                     xrdv_AdditionalPrinterColumns = []\<rparr>;
          xrdVer1 = (if length (crdv_AdditionalPrinterColumns crdVer) > 0
                     then xrdVer0\<lparr>xrdv_AdditionalPrinterColumns := crdv_AdditionalPrinterColumns crdVer\<rparr>
                     else xrdVer0);
          xrdVer2 = (if crdv_Deprecated crdVer
                     then xrdVer1\<lparr>xrdv_Deprecated := Some (crdv_Deprecated crdVer),
                                  xrdv_DeprecationWarning := crdv_DeprecationWarning crdVer\<rparr>
                     else xrdVer1)
      in xrdVer2)"

text \<open>The loop itself: the accumulator is the slice \<open>xrdVersions\<close>, grown by \<open>append\<close>.\<close>

fun convertVersions_loop ::
  "('s \<Rightarrow> error + bytes) \<Rightarrow> 's CustomResourceDefinitionVersion list
     \<Rightarrow> CompositeResourceDefinitionVersion list \<Rightarrow> CompositeResourceDefinitionVersion list"
where
  "convertVersions_loop marshal [] xrdVersions = xrdVersions"
| "convertVersions_loop marshal (crdVer # rest) xrdVersions =
     convertVersions_loop marshal rest (xrdVersions @ [convertVersions_body marshal crdVer])"

definition convertVersions ::
  "('s \<Rightarrow> error + bytes) \<Rightarrow> 's CustomResourceDefinitionVersion list
     \<Rightarrow> CompositeResourceDefinitionVersion list"
where
  "convertVersions marshal crdVersions = convertVersions_loop marshal crdVersions []"

text \<open>
  \<open>CRDToXRDv2\<close> on the value its pointer argument points at. The Go function returns a
  pair (pointer, error); the model returns \<open>Inr\<close> of the XRD for a nil error. The struct
  literal leaves \<open>Spec.Conversion\<close> nil; the \<open>if\<close> after it copies the pointer.
\<close>

definition CRDToXRDv2 ::
  "('s \<Rightarrow> error + bytes) \<Rightarrow> 's CustomResourceDefinition \<Rightarrow> error + CompositeResourceDefinition"
where
  "CRDToXRDv2 marshal crd =
     (let xrd0 = \<lparr>xrd_APIVersion = SchemeGroupVersion_String,
                  xrd_Kind = CompositeResourceDefinitionKind,
                  xrd_Name = crd_Name crd,
                  xrd_Annotations = crd_Annotations crd,
                  xrd_Labels = crd_Labels crd,
                  xrd_Spec = \<lparr>xrds_Group = crds_Group (crd_Spec crd),
                              xrds_Names = crds_Names (crd_Spec crd),
                              xrds_Versions = convertVersions marshal (crds_Versions (crd_Spec crd)),
                              xrds_Conversion = None\<rparr>\<rparr>;
          xrd1 = (if crds_Conversion (crd_Spec crd) \<noteq> None
                  then xrd0\<lparr>xrd_Spec := (xrd_Spec xrd0)\<lparr>xrds_Conversion := crds_Conversion (crd_Spec crd)\<rparr>\<rparr>
                  else xrd0)
      in Inr xrd1)"

section \<open>The generator\<close>

text \<open>
  The configuration of the generator, as the struct \<open>Generator\<close> declares it, and the
  three switches of the external schema parser that \<open>Generate\<close> sets from it.
\<close>

record Generator =
  IgnoreUnexportedFields :: "bool option"
  AllowDangerousTypes :: "bool option"
  MaxDescLen :: "int option"
  GenerateEmbeddedObjectMeta :: "bool option"
  HeaderFile :: string
  Year :: string

record Parser =
  parser_IgnoreUnexportedFields :: bool
  parser_AllowDangerousTypes :: bool
  parser_GenerateEmbeddedObjectMeta :: bool

text \<open>
  A serialized document is the \<open>map[string]any\<close> the writer hands to its transform.
  What the run leaves behind is the list of files given to the output sink, in order, and
  (as a record of the calls made) the kinds for which the mapper has been invoked.
\<close>

type_synonym 'v document = "string \<rightharpoonup> 'v"

record 'v output_file =
  file_Name :: string
  file_Header :: string
  file_Documents :: "'v document list"

record 'v world =
  written :: "'v output_file list"
  converted :: "GroupKind list"

text \<open>
  The generation context and the external collaborators reached through it, as
  parameters: whether \<open>crd.FindMetav1\<close> finds the metadata package, the kinds
  \<open>crd.FindKubeKinds\<close> returns, the CRD found in \<open>parser.CustomResourceDefinitions\<close>
  after \<open>parser.NeedCRDFor\<close> (the zero CRD when the parser stored none), \<open>ctx.ReadFile\<close>,
  whether the output sink opens a file of a given name, and the generic serialization of
  an object into a document.
\<close>

record ('s, 'v) GenerationContext =
  FindMetav1 :: bool
  FindKubeKinds :: "Parser \<Rightarrow> GroupKind list"
  NeedCRDFor :: "Parser \<Rightarrow> GroupKind \<Rightarrow> int option \<Rightarrow> 's CustomResourceDefinition"
  ReadFile :: "string \<Rightarrow> error + bytes"
  OpenFile :: "string \<Rightarrow> error option"
  toDocument :: "CompositeResourceDefinition \<Rightarrow> error + 'v document"

text \<open>
  \<open>strings.ReplaceAll\<close> of the Go standard library: every non-overlapping instance of
  \<open>old\<close>, scanning from the left, is replaced by \<open>new\<close>. With an empty \<open>old\<close> the
  replacement is inserted before every character and at the end (characters are bytes
  here; the generator only calls it with a non-empty \<open>old\<close>).
\<close>

function ReplaceAll :: "string \<Rightarrow> string \<Rightarrow> string \<Rightarrow> string" where
  "ReplaceAll s old new =
     (if old = [] then concat (map (\<lambda>c. new @ [c]) s) @ new
      else if s = [] then []
      else if take (length old) s = old then new @ ReplaceAll (drop (length old) s) old new
      else hd s # ReplaceAll (tl s) old new)"
  by pat_completeness auto
termination
  by (relation "measure (\<lambda>(s, old, new). length s)") auto

declare ReplaceAll.simps [simp del]

text \<open>\<open>GroupKind.String()\<close> of apimachinery: the kind alone when the group is empty.\<close>

definition GroupKind_String :: "GroupKind \<Rightarrow> string" where
  "GroupKind_String gk =
     (if length (gk_Group gk) = 0 then gk_Kind gk else gk_Kind gk @ ''.'' @ gk_Group gk)"

text \<open>
  \<open>removeXRDStatus\<close>: deletes the key \<open>status\<close> from the map it is given (in place in
  Go; the model returns the map) and returns a nil error.
\<close>

definition removeXRDStatus :: "'v document \<Rightarrow> error option \<times> 'v document" where
  "removeXRDStatus obj = (None, obj(''status'' := None))"

text \<open>
  Modelled from the spec: \<open>ctx.WriteYAML\<close> belongs to the external generation toolkit, not
  to this repository. The spec describes it as the output-writing service that
  "serializes a sequence of objects to YAML, applying a caller-supplied post-processing
  transform" to the emitted document. The model opens the file, writes the header, and
  for each object serializes it, applies the transform and appends the document; the
  first error stops the writing and is returned, with what was written so far.
\<close>

fun WriteYAML_objs ::
  "('s, 'v) GenerationContext \<Rightarrow> CompositeResourceDefinition list
     \<Rightarrow> ('v document \<Rightarrow> error option \<times> 'v document)
     \<Rightarrow> 'v document list \<Rightarrow> error option \<times> 'v document list"
where
  "WriteYAML_objs ctx [] transform docs = (None, docs)"
| "WriteYAML_objs ctx (obj # objs) transform docs =
     (case toDocument ctx obj of
        Inl err \<Rightarrow> (Some err, docs)
      | Inr d \<Rightarrow>
          (case transform d of
             (Some err, d') \<Rightarrow> (Some err, docs)
           | (None, d') \<Rightarrow> WriteYAML_objs ctx objs transform (docs @ [d'])))"

definition WriteYAML ::
  "('s, 'v) GenerationContext \<Rightarrow> string \<Rightarrow> string \<Rightarrow> CompositeResourceDefinition list
     \<Rightarrow> ('v document \<Rightarrow> error option \<times> 'v document)
     \<Rightarrow> 'v world \<Rightarrow> error option \<times> 'v world"
where
  "WriteYAML ctx itemPath headerText objs transform w =
     (case OpenFile ctx itemPath of
        Some err \<Rightarrow> (Some err, w)
      | None \<Rightarrow>
          (case WriteYAML_objs ctx objs transform [] of
             (err, docs) \<Rightarrow>
               (err, w\<lparr>written := written w @
                        [\<lparr>file_Name = itemPath, file_Header = headerText, file_Documents = docs\<rparr>]\<rparr>)))"

text \<open>The storage-version check of \<open>Generate\<close>: the loop that sets \<open>hasStorage\<close>.\<close>

fun hasStorage :: "'s CustomResourceDefinitionVersion list \<Rightarrow> bool" where
  "hasStorage [] = False"
| "hasStorage (ver # rest) = (if crdv_Storage ver then True else hasStorage rest)"

text \<open>
  The body of the loop over the kinds in \<open>Generate\<close>: build the CRD, check the storage
  version, convert, name the file, write. The result is the error returned from
  \<open>Generate\<close> in this iteration, if any, and the world after it.
\<close>

definition Generate_body ::
  "('s \<Rightarrow> error + bytes) \<Rightarrow> Generator \<Rightarrow> ('s, 'v) GenerationContext \<Rightarrow> Parser \<Rightarrow> string
     \<Rightarrow> GroupKind \<Rightarrow> 'v world \<Rightarrow> error option \<times> 'v world"
where
  "Generate_body marshal g ctx parser headerText groupKind w =
     (let crdRaw = NeedCRDFor ctx parser groupKind (MaxDescLen g) in
      if \<not> hasStorage (crds_Versions (crd_Spec crdRaw)) then
        (Some (ErrorString (''XRD '' @ gk_Kind groupKind @ ''.'' @ gk_Group groupKind @
                 '' must have at least one version with +kubebuilder:storageversion marker'')), w)
      else
        (let w1 = w\<lparr>converted := converted w @ [groupKind]\<rparr> in
         case CRDToXRDv2 marshal crdRaw of
           Inl err \<Rightarrow>
             (Some (WrapError (''failed to convert CRD to XRD for '' @ GroupKind_String groupKind @ '': '') err), w1)
         | Inr xrd \<Rightarrow>
             (let fileName = crds_Group (crd_Spec crdRaw) @ ''_'' @
                               names_Plural (crds_Names (crd_Spec crdRaw)) @ ''.yaml'' in
              case WriteYAML ctx fileName headerText [xrd] removeXRDStatus w1 of
                (Some err, w2) \<Rightarrow> (Some (WrapError ''failed to write XRD: '' err), w2)
              | (None, w2) \<Rightarrow> (None, w2))))"

fun Generate_loop ::
  "('s \<Rightarrow> error + bytes) \<Rightarrow> Generator \<Rightarrow> ('s, 'v) GenerationContext \<Rightarrow> Parser \<Rightarrow> string
     \<Rightarrow> GroupKind list \<Rightarrow> 'v world \<Rightarrow> error option \<times> 'v world"
where
  "Generate_loop marshal g ctx parser headerText [] w = (None, w)"
| "Generate_loop marshal g ctx parser headerText (groupKind # rest) w =
     (case Generate_body marshal g ctx parser headerText groupKind w of
        (Some err, w') \<Rightarrow> (Some err, w')
      | (None, w') \<Rightarrow> Generate_loop marshal g ctx parser headerText rest w')"

text \<open>
  The parser as \<open>Generate\<close> configures it: a switch is set only when the option is. The
  calls \<open>crd.AddKnownTypes\<close> and \<open>parser.NeedPackage\<close> that follow act on the external
  parser alone; what they bring about is part of what \<open>FindKubeKinds\<close> and
  \<open>NeedCRDFor\<close> return.
\<close>

definition Generate_parser :: "Generator \<Rightarrow> Parser" where
  "Generate_parser g =
     (let parser0 = \<lparr>parser_IgnoreUnexportedFields = False,
                     parser_AllowDangerousTypes = False,
                     parser_GenerateEmbeddedObjectMeta = False\<rparr>;
          parser1 = (case IgnoreUnexportedFields g of
                       Some b \<Rightarrow> parser0\<lparr>parser_IgnoreUnexportedFields := b\<rparr>
                     | None \<Rightarrow> parser0);
          parser2 = (case AllowDangerousTypes g of
                       Some b \<Rightarrow> parser1\<lparr>parser_AllowDangerousTypes := b\<rparr>
                     | None \<Rightarrow> parser1);
          parser3 = (case GenerateEmbeddedObjectMeta g of
                       Some b \<Rightarrow> parser2\<lparr>parser_GenerateEmbeddedObjectMeta := b\<rparr>
                     | None \<Rightarrow> parser2)
      in parser3)"

text \<open>
  The header text \<open>Generate\<close> passes to every write: the contents of the header file
  (the empty string when none is configured) after the replacement of the year token.
\<close>

definition Generate_header ::
  "Generator \<Rightarrow> ('s, 'v) GenerationContext \<Rightarrow> error + string" where
  "Generate_header g ctx =
     (case (if HeaderFile g \<noteq> [] then ReadFile ctx (HeaderFile g) else Inr []) of
        Inl err \<Rightarrow> Inl err
      | Inr headerText \<Rightarrow> Inr (ReplaceAll headerText '' YEAR'' ('' '' @ Year g)))"

definition Generate ::
  "('s \<Rightarrow> error + bytes) \<Rightarrow> Generator \<Rightarrow> ('s, 'v) GenerationContext \<Rightarrow> 'v world
     \<Rightarrow> error option \<times> 'v world"
where
  "Generate marshal g ctx w =
     (let parser = Generate_parser g in
      if \<not> FindMetav1 ctx then (None, w)
      else
        (let kubeKinds = FindKubeKinds ctx parser in
         if length kubeKinds = 0 then (None, w)
         else
           (case Generate_header g ctx of
              Inl err \<Rightarrow> (Some err, w)
            | Inr headerText \<Rightarrow> Generate_loop marshal g ctx parser headerText kubeKinds w)))"

section \<open>The mapper on a store\<close>

text \<open>
  \<open>CRDToXRDv2\<close> takes a pointer and returns a pointer. On a store of objects, addressed by
  their position, the call reads the CRD its argument points at, builds the XRD and
  allocates it in a fresh cell; the source has no assignment through the argument. A nil
  or dangling argument makes the first field read panic.
\<close>

datatype 's object =
  CRDObject "'s CustomResourceDefinition"
| XRDObject CompositeResourceDefinition

datatype panic = NilPointerDereference | InvalidAddress

type_synonym 's store = "'s object list"

definition CRDToXRDv2_store ::
  "('s \<Rightarrow> error + bytes) \<Rightarrow> nat option \<Rightarrow> 's store
     \<Rightarrow> (panic + nat option \<times> error option) \<times> 's store"
where
  "CRDToXRDv2_store marshal crd st =
     (case crd of
        None \<Rightarrow> (Inl NilPointerDereference, st)
      | Some a \<Rightarrow>
          if a < length st then
            (case st ! a of
               CRDObject c \<Rightarrow>
                 (case CRDToXRDv2 marshal c of
                    Inl err \<Rightarrow> (Inr (None, Some err), st)
                  | Inr xrd \<Rightarrow> (Inr (Some (length st), None), st @ [XRDObject xrd]))
             | XRDObject x \<Rightarrow> (Inl InvalidAddress, st))
          else (Inl InvalidAddress, st))"

section \<open>A sample run\<close>

text \<open>
  A concrete API kind with two versions, the second of which is the storage version, and
  a context that discovers it. The sample encoder rejects the schema named \<open>bad\<close>.
\<close>

definition sample_marshal :: "string \<Rightarrow> error + bytes" where
  "sample_marshal s =
     (if s = ''bad'' then Inl (ErrorString ''json: unsupported value'') else Inr (''{'' @ s @ ''}''))"

definition sample_v1 :: "string CustomResourceDefinitionVersion" where
  "sample_v1 = \<lparr>crdv_Name = ''v1'', crdv_Served = False, crdv_Storage = False,
                crdv_Deprecated = True, crdv_DeprecationWarning = Some ''use v2'',
                crdv_Schema = Some \<lparr>crv_OpenAPIV3Schema = Some ''bad''\<rparr>,
                crdv_AdditionalPrinterColumns = []\<rparr>"

definition sample_v2 :: "string CustomResourceDefinitionVersion" where
  "sample_v2 = \<lparr>crdv_Name = ''v2'', crdv_Served = True, crdv_Storage = True,
                crdv_Deprecated = False, crdv_DeprecationWarning = Some ''not shown'',
                crdv_Schema = Some \<lparr>crv_OpenAPIV3Schema = Some ''object''\<rparr>,
                crdv_AdditionalPrinterColumns = []\<rparr>"

definition sample_names :: CustomResourceDefinitionNames where
  "sample_names = \<lparr>names_Plural = ''widgets'', names_Singular = ''widget'',
                   names_ShortNames = [], names_Kind = ''Widget'',
                   names_ListKind = ''WidgetList'', names_Categories = []\<rparr>"

definition sample_crd :: "string CustomResourceDefinition" where
  "sample_crd = \<lparr>crd_Name = ''widgets.example.org'',
                 crd_Annotations = [''owner'' \<mapsto> ''team-a''],
                 crd_Labels = Map.empty,
                 crd_Spec = \<lparr>crds_Group = ''example.org'', crds_Names = sample_names,
                             crds_Scope = ''Namespaced'',
                             crds_Versions = [sample_v1, sample_v2],
                             crds_Conversion = None\<rparr>\<rparr>"

definition sample_crd_no_storage :: "string CustomResourceDefinition" where
  "sample_crd_no_storage =
     sample_crd\<lparr>crd_Spec := (crd_Spec sample_crd)\<lparr>crds_Versions := [sample_v1]\<rparr>\<rparr>"

definition sample_kind :: GroupKind where
  "sample_kind = \<lparr>gk_Group = ''example.org'', gk_Kind = ''Widget''\<rparr>"

definition sample_generator :: Generator where
  "sample_generator = \<lparr>IgnoreUnexportedFields = None, AllowDangerousTypes = None,
                       MaxDescLen = Some 0, GenerateEmbeddedObjectMeta = None,
                       HeaderFile = ''boilerplate.txt'', Year = ''2024''\<rparr>"

definition sample_ctx :: "(string, string) GenerationContext" where
  "sample_ctx = \<lparr>FindMetav1 = True,
                 FindKubeKinds = (\<lambda>p. [sample_kind]),
                 NeedCRDFor = (\<lambda>p gk n. sample_crd),
                 ReadFile = (\<lambda>f. if f = ''boilerplate.txt'' then Inr ''Copyright YEAR''
                                  else Inl (ErrorString ''no such file'')),
                 OpenFile = (\<lambda>f. None),
                 toDocument = (\<lambda>x. Inr [''kind'' \<mapsto> xrd_Kind x, ''status'' \<mapsto> ''{}''])\<rparr>"

text \<open>
  A second context: it discovers the sample kind and, after it, a kind whose CRD has no
  storage version.
\<close>

definition sample_kind_no_storage :: GroupKind where
  "sample_kind_no_storage = \<lparr>gk_Group = ''example.org'', gk_Kind = ''Gadget''\<rparr>"

definition sample_ctx_two_kinds :: "(string, string) GenerationContext" where
  "sample_ctx_two_kinds =
     sample_ctx\<lparr>FindKubeKinds := (\<lambda>p. [sample_kind, sample_kind_no_storage]),
                NeedCRDFor := (\<lambda>p gk n. if gk = sample_kind then sample_crd
                                         else sample_crd_no_storage)\<rparr>"

definition empty_world :: "'v world" where
  "empty_world = \<lparr>written = [], converted = []\<rparr>"

section \<open>Auxiliary facts\<close>

text \<open>The loop of \<open>convertVersions\<close> maps its body over the input, in order.\<close>

lemma convertVersions_loop_map:
  "convertVersions_loop marshal vs acc = acc @ map (convertVersions_body marshal) vs"
  by (induction vs arbitrary: acc) simp_all

lemma convertVersions_map:
  "convertVersions marshal vs = map (convertVersions_body marshal) vs"
  by (simp add: convertVersions_def convertVersions_loop_map)

lemma hasStorage_iff: "hasStorage vs \<longleftrightarrow> (\<exists>v\<in>set vs. crdv_Storage v)"
  by (induction vs) auto

lemma CRDToXRDv2_versions:
  "\<exists>xrd. CRDToXRDv2 marshal crd = Inr xrd \<and>
     xrds_Versions (xrd_Spec xrd) = map (convertVersions_body marshal) (crds_Versions (crd_Spec crd))"
  by (simp add: CRDToXRDv2_def Let_def convertVersions_map)

lemma WriteYAML_objs_status:
  "\<exists>new. snd (WriteYAML_objs ctx objs removeXRDStatus docs) = docs @ new \<and>
     (\<forall>d\<in>set new. d ''status'' = None)"
proof (induction objs arbitrary: docs)
  case Nil
  then show ?case by simp
next
  case (Cons obj objs)
  show ?case
  proof (cases "toDocument ctx obj")
    case (Inl err)
    then show ?thesis by simp
  next
    case (Inr d)
    obtain new where n: "snd (WriteYAML_objs ctx objs removeXRDStatus (docs @ [d(''status'' := None)])) = (docs @ [d(''status'' := None)]) @ new"
      "\<forall>d\<in>set new. d ''status'' = None"
      using Cons.IH by blast
    have "snd (WriteYAML_objs ctx (obj # objs) removeXRDStatus docs) = docs @ (d(''status'' := None) # new)"
      using Inr n(1) by (simp add: removeXRDStatus_def)
    moreover have "\<forall>x\<in>set (d(''status'' := None) # new). x ''status'' = None"
      using n(2) by simp
    ultimately show ?thesis by blast
  qed
qed

text \<open>
  What one iteration, the loop and the whole of \<open>Generate\<close> add to the written files:
  each new file carries the header text of the run, is named after the CRD of one of the
  kinds, and holds documents without a \<open>status\<close> key.
\<close>

lemma Generate_body_written:
  "\<exists>new. written (snd (Generate_body marshal g ctx parser headerText groupKind w)) = written w @ new \<and>
     (\<forall>f\<in>set new. file_Header f = headerText \<and>
        file_Name f = crds_Group (crd_Spec (NeedCRDFor ctx parser groupKind (MaxDescLen g))) @ ''_'' @
          names_Plural (crds_Names (crd_Spec (NeedCRDFor ctx parser groupKind (MaxDescLen g)))) @ ''.yaml'' \<and>
        (\<forall>d\<in>set (file_Documents f). d ''status'' = None))"
proof -
  let ?crd = "NeedCRDFor ctx parser groupKind (MaxDescLen g)"
  show ?thesis
  proof (cases "hasStorage (crds_Versions (crd_Spec ?crd))")
    case False
    then show ?thesis by (simp add: Generate_body_def Let_def)
  next
    case True
    obtain xrd where x: "CRDToXRDv2 marshal ?crd = Inr xrd"
      using CRDToXRDv2_versions by blast
    show ?thesis
    proof (cases "OpenFile ctx (crds_Group (crd_Spec ?crd) @ ''_'' @ names_Plural (crds_Names (crd_Spec ?crd)) @ ''.yaml'')")
      case (Some err)
      then show ?thesis using True x
        by (simp add: Generate_body_def Let_def WriteYAML_def)
    next
      case None
      obtain e docs where r: "WriteYAML_objs ctx [xrd] removeXRDStatus [] = (e, docs)"
        by (cases "WriteYAML_objs ctx [xrd] removeXRDStatus []") blast
      have d: "\<forall>d\<in>set docs. d ''status'' = None"
        using WriteYAML_objs_status [of ctx "[xrd]" "[]"] r by auto
      show ?thesis using True x None r d
        by (cases e) (simp_all add: Generate_body_def Let_def WriteYAML_def)
    qed
  qed
qed


lemma Generate_loop_written:
  "\<exists>new. written (snd (Generate_loop marshal g ctx parser headerText kinds w)) = written w @ new \<and>
     (\<forall>f\<in>set new. file_Header f = headerText \<and>
        (\<exists>gk\<in>set kinds. file_Name f =
           crds_Group (crd_Spec (NeedCRDFor ctx parser gk (MaxDescLen g))) @ ''_'' @
           names_Plural (crds_Names (crd_Spec (NeedCRDFor ctx parser gk (MaxDescLen g)))) @ ''.yaml'') \<and>
        (\<forall>d\<in>set (file_Documents f). d ''status'' = None))"
proof (induction kinds arbitrary: w)
  case Nil
  then show ?case by simp
next
  case (Cons gk rest)
  obtain e w1 where b: "Generate_body marshal g ctx parser headerText gk w = (e, w1)"
    by (cases "Generate_body marshal g ctx parser headerText gk w") blast
  obtain new1 where n1: "written w1 = written w @ new1"
    "\<forall>f\<in>set new1. file_Header f = headerText \<and>
        file_Name f = crds_Group (crd_Spec (NeedCRDFor ctx parser gk (MaxDescLen g))) @ ''_'' @
          names_Plural (crds_Names (crd_Spec (NeedCRDFor ctx parser gk (MaxDescLen g)))) @ ''.yaml'' \<and>
        (\<forall>d\<in>set (file_Documents f). d ''status'' = None)"
    using Generate_body_written [of marshal g ctx parser headerText gk w] b by auto
  show ?case
  proof (cases e)
    case (Some err)
    have "written (snd (Generate_loop marshal g ctx parser headerText (gk # rest) w)) = written w @ new1"
      using b Some n1(1) by simp
    then show ?thesis using n1(2) by fastforce
  next
    case None
    obtain new2 where n2:
      "written (snd (Generate_loop marshal g ctx parser headerText rest w1)) = written w1 @ new2"
      "\<forall>f\<in>set new2. file_Header f = headerText \<and>
        (\<exists>gk\<in>set rest. file_Name f =
           crds_Group (crd_Spec (NeedCRDFor ctx parser gk (MaxDescLen g))) @ ''_'' @
           names_Plural (crds_Names (crd_Spec (NeedCRDFor ctx parser gk (MaxDescLen g)))) @ ''.yaml'') \<and>
        (\<forall>d\<in>set (file_Documents f). d ''status'' = None)"
      using Cons.IH [of w1] by blast
    have "written (snd (Generate_loop marshal g ctx parser headerText (gk # rest) w)) = written w @ (new1 @ new2)"
      using b None n1(1) n2(1) by simp
    moreover have "\<forall>f\<in>set (new1 @ new2). file_Header f = headerText \<and>
        (\<exists>k\<in>set (gk # rest). file_Name f =
           crds_Group (crd_Spec (NeedCRDFor ctx parser k (MaxDescLen g))) @ ''_'' @
           names_Plural (crds_Names (crd_Spec (NeedCRDFor ctx parser k (MaxDescLen g)))) @ ''.yaml'') \<and>
        (\<forall>d\<in>set (file_Documents f). d ''status'' = None)"
      using n1(2) n2(2) by auto
    ultimately show ?thesis by blast
  qed
qed

lemma Generate_written:
  "\<exists>new. written (snd (Generate marshal g ctx w)) = written w @ new \<and>
     (\<forall>f\<in>set new. Generate_header g ctx = Inr (file_Header f) \<and>
        (\<exists>gk\<in>set (FindKubeKinds ctx (Generate_parser g)). file_Name f =
           crds_Group (crd_Spec (NeedCRDFor ctx (Generate_parser g) gk (MaxDescLen g))) @ ''_'' @
           names_Plural (crds_Names (crd_Spec (NeedCRDFor ctx (Generate_parser g) gk (MaxDescLen g)))) @ ''.yaml'') \<and>
        (\<forall>d\<in>set (file_Documents f). d ''status'' = None))"
proof (cases "FindMetav1 ctx \<and> length (FindKubeKinds ctx (Generate_parser g)) \<noteq> 0")
  case False
  then have "written (snd (Generate marshal g ctx w)) = written w @ []"
    by (auto simp add: Generate_def Let_def)
  then show ?thesis by fastforce
next
  case True
  show ?thesis
  proof (cases "Generate_header g ctx")
    case (Inl err)
    then have "written (snd (Generate marshal g ctx w)) = written w @ []"
      using True by (simp add: Generate_def Let_def)
    then show ?thesis by fastforce
  next
    case (Inr headerText)
    have "Generate marshal g ctx w =
            Generate_loop marshal g ctx (Generate_parser g) headerText (FindKubeKinds ctx (Generate_parser g)) w"
      using True Inr by (simp add: Generate_def Let_def)
    then show ?thesis
      using Generate_loop_written [of marshal g ctx "Generate_parser g" headerText
              "FindKubeKinds ctx (Generate_parser g)" w] Inr
      by fastforce
  qed
qed

lemma Generate_loop_append:
  "Generate_loop marshal g ctx parser headerText pre w = (None, w1) \<Longrightarrow>
   Generate_loop marshal g ctx parser headerText (pre @ kinds) w =
   Generate_loop marshal g ctx parser headerText kinds w1"
proof (induction pre arbitrary: w)
  case Nil
  then show ?case by simp
next
  case (Cons gk pre)
  obtain e w' where b: "Generate_body marshal g ctx parser headerText gk w = (e, w')"
    by (cases "Generate_body marshal g ctx parser headerText gk w") blast
  show ?case
  proof (cases e)
    case (Some err)
    then show ?thesis using Cons.prems b by simp
  next
    case None
    then show ?thesis using Cons.prems Cons.IH [of w'] b by simp
  qed
qed

lemma Generate_body_no_storage:
  "\<not> hasStorage (crds_Versions (crd_Spec (NeedCRDFor ctx parser groupKind (MaxDescLen g)))) \<Longrightarrow>
   Generate_body marshal g ctx parser headerText groupKind w =
     (Some (ErrorString (''XRD '' @ gk_Kind groupKind @ ''.'' @ gk_Group groupKind @
        '' must have at least one version with +kubebuilder:storageversion marker'')), w)"
  by (simp add: Generate_body_def Let_def)

lemma convertVersions_body_fields:
  "xrdv_Name (convertVersions_body marshal v) = crdv_Name v"
  "xrdv_Referenceable (convertVersions_body marshal v) = crdv_Storage v"
  "xrdv_Served (convertVersions_body marshal v) = crdv_Served v"
  "xrdv_Deprecated (convertVersions_body marshal v) = (if crdv_Deprecated v then Some True else None)"
  "xrdv_DeprecationWarning (convertVersions_body marshal v) =
     (if crdv_Deprecated v then crdv_DeprecationWarning v else None)"
  "xrdv_Schema (convertVersions_body marshal v) = convertSchema marshal (crdv_Schema v)"
  by (simp_all add: convertVersions_body_def Let_def)

lemmas sample_defs =
  sample_marshal_def sample_v1_def sample_v2_def sample_names_def sample_crd_def
  sample_crd_no_storage_def sample_kind_def sample_generator_def sample_ctx_def
  sample_kind_no_storage_def sample_ctx_two_kinds_def empty_world_def

lemmas mapper_defs =
  CRDToXRDv2_def convertVersions_def convertVersions_body_def convertSchema_def
  SchemeGroupVersion_String_def xpv2_Group_def xpv2_Version_def
  CompositeResourceDefinitionKind_def Let_def

lemmas generator_defs =
  Generate_def Generate_parser_def Generate_header_def Generate_body_def WriteYAML_def
  removeXRDStatus_def GroupKind_String_def ReplaceAll.simps

section \<open>The claims\<close>

subsection \<open>Storage-version precondition\<close>

text \<open>
  C1. When the run reaches a kind whose CRD has no version with \<open>storage = true\<close>,
  \<open>Generate\<close> returns the error that names the kind and the group, and the world is the
  one the loop had reached before this kind: the mapper is not invoked for it
  (\<open>converted\<close> is unchanged) and no file is written for it (\<open>written\<close> is unchanged).
\<close>

theorem no_storage_version_rejected:
  assumes "\<forall>v\<in>set (crds_Versions (crd_Spec
             (NeedCRDFor ctx (Generate_parser g) groupKind (MaxDescLen g)))). \<not> crdv_Storage v"
    and "FindMetav1 ctx"
    and "FindKubeKinds ctx (Generate_parser g) = pre @ groupKind # rest"
    and "Generate_header g ctx = Inr headerText"
    and "Generate_loop marshal g ctx (Generate_parser g) headerText pre w = (None, w1)"
  shows "Generate marshal g ctx w =
     (Some (ErrorString (''XRD '' @ gk_Kind groupKind @ ''.'' @ gk_Group groupKind @
        '' must have at least one version with +kubebuilder:storageversion marker'')), w1)"
proof -
  have "\<not> hasStorage (crds_Versions (crd_Spec
           (NeedCRDFor ctx (Generate_parser g) groupKind (MaxDescLen g))))"
    using assms(1) by (simp add: hasStorage_iff)
  then have "Generate_loop marshal g ctx (Generate_parser g) headerText (groupKind # rest) w1 =
     (Some (ErrorString (''XRD '' @ gk_Kind groupKind @ ''.'' @ gk_Group groupKind @
        '' must have at least one version with +kubebuilder:storageversion marker'')), w1)"
    by (simp add: Generate_body_no_storage)
  then have "Generate_loop marshal g ctx (Generate_parser g) headerText (pre @ groupKind # rest) w =
     (Some (ErrorString (''XRD '' @ gk_Kind groupKind @ ''.'' @ gk_Group groupKind @
        '' must have at least one version with +kubebuilder:storageversion marker'')), w1)"
    using Generate_loop_append [OF assms(5), of "groupKind # rest"] by simp
  then show ?thesis
    using assms(2,3,4) by (simp add: Generate_def Let_def)
qed

text \<open>
  The second sample context: the first kind is converted and written, the run then fails
  at the kind without a storage version, for which nothing is converted or written.
\<close>

theorem no_storage_version_rejected_witness:
  "\<not> crdv_Storage (hd (crds_Versions (crd_Spec sample_crd_no_storage))) \<and>
   length (crds_Versions (crd_Spec sample_crd_no_storage)) = 1 \<and>
   FindKubeKinds sample_ctx_two_kinds (Generate_parser sample_generator) =
     [sample_kind, sample_kind_no_storage] \<and>
   fst (Generate sample_marshal sample_generator sample_ctx_two_kinds empty_world) =
     Some (ErrorString
        ''XRD Gadget.example.org must have at least one version with +kubebuilder:storageversion marker'') \<and>
   converted (snd (Generate sample_marshal sample_generator sample_ctx_two_kinds empty_world)) =
     [sample_kind] \<and>
   map file_Name (written (snd (Generate sample_marshal sample_generator sample_ctx_two_kinds empty_world))) =
     [''example.org_widgets.yaml'']"
proof -
  let ?p = "Generate_parser sample_generator"
  let ?w1 = "snd (Generate_loop sample_marshal sample_generator sample_ctx_two_kinds ?p
                    ''Copyright 2024'' [sample_kind] empty_world)"
  have h1: "\<forall>v\<in>set (crds_Versions (crd_Spec
             (NeedCRDFor sample_ctx_two_kinds ?p sample_kind_no_storage (MaxDescLen sample_generator)))).
             \<not> crdv_Storage v"
    by (simp add: sample_defs)
  have h2: "FindMetav1 sample_ctx_two_kinds"
    by (simp add: sample_defs)
  have h3: "FindKubeKinds sample_ctx_two_kinds ?p = [sample_kind] @ sample_kind_no_storage # []"
    by (simp add: sample_defs)
  have h4: "Generate_header sample_generator sample_ctx_two_kinds = Inr ''Copyright 2024''"
    by (simp add: sample_defs Generate_header_def ReplaceAll.simps)
  have "fst (Generate_loop sample_marshal sample_generator sample_ctx_two_kinds ?p
                    ''Copyright 2024'' [sample_kind] empty_world) = None"
    by (simp add: sample_defs mapper_defs generator_defs)
  then have h5: "Generate_loop sample_marshal sample_generator sample_ctx_two_kinds ?p
                    ''Copyright 2024'' [sample_kind] empty_world = (None, ?w1)"
    by (simp add: prod_eq_iff)
  have w: "converted ?w1 = [sample_kind] \<and> map file_Name (written ?w1) = [''example.org_widgets.yaml'']"
    by (simp add: sample_defs mapper_defs generator_defs)
  show ?thesis
    using no_storage_version_rejected [OF h1 h2 h3 h4 h5] w
    by (simp add: sample_defs)
qed

subsection \<open>Versions\<close>

text \<open>
  C2. For a CRD with at least one storage version the check of \<open>Generate\<close> passes, the
  mapper returns an XRD, and the XRD has as many versions as the CRD, the i-th being the
  conversion of the i-th input version, under the same name.
\<close>

theorem storage_version_conversion_preserves_versions:
  assumes "\<exists>v\<in>set (crds_Versions (crd_Spec crd)). crdv_Storage v"
  shows "hasStorage (crds_Versions (crd_Spec crd)) \<and>
     (\<exists>xrd. CRDToXRDv2 marshal crd = Inr xrd \<and>
        length (xrds_Versions (xrd_Spec xrd)) = length (crds_Versions (crd_Spec crd)) \<and>
        (\<forall>i<length (crds_Versions (crd_Spec crd)).
           xrds_Versions (xrd_Spec xrd) ! i =
             convertVersions_body marshal (crds_Versions (crd_Spec crd) ! i) \<and>
           xrdv_Name (xrds_Versions (xrd_Spec xrd) ! i) =
             crdv_Name (crds_Versions (crd_Spec crd) ! i)))"
proof -
  obtain xrd where x: "CRDToXRDv2 marshal crd = Inr xrd"
    "xrds_Versions (xrd_Spec xrd) = map (convertVersions_body marshal) (crds_Versions (crd_Spec crd))"
    using CRDToXRDv2_versions by blast
  have "hasStorage (crds_Versions (crd_Spec crd))"
    using assms by (simp add: hasStorage_iff)
  moreover have "length (xrds_Versions (xrd_Spec xrd)) = length (crds_Versions (crd_Spec crd))"
    using x(2) by simp
  moreover have "\<forall>i<length (crds_Versions (crd_Spec crd)).
           xrds_Versions (xrd_Spec xrd) ! i =
             convertVersions_body marshal (crds_Versions (crd_Spec crd) ! i) \<and>
           xrdv_Name (xrds_Versions (xrd_Spec xrd) ! i) =
             crdv_Name (crds_Versions (crd_Spec crd) ! i)"
    using x(2) by (simp add: convertVersions_body_fields)
  ultimately show ?thesis using x(1) by blast
qed

text \<open>The sample CRD: two versions, the second one the storage version.\<close>

theorem storage_version_conversion_preserves_versions_witness:
  "crdv_Storage (crds_Versions (crd_Spec sample_crd) ! 1) \<and>
   hasStorage (crds_Versions (crd_Spec sample_crd)) \<and>
   (\<exists>xrd. CRDToXRDv2 sample_marshal sample_crd = Inr xrd \<and>
      length (xrds_Versions (xrd_Spec xrd)) = 2 \<and>
      xrdv_Name (xrds_Versions (xrd_Spec xrd) ! 0) = ''v1'' \<and>
      xrdv_Name (xrds_Versions (xrd_Spec xrd) ! 1) = ''v2'')"
proof -
  have h: "\<exists>v\<in>set (crds_Versions (crd_Spec sample_crd)). crdv_Storage v"
    by (simp add: sample_defs)
  show ?thesis
    using storage_version_conversion_preserves_versions [OF h, of sample_marshal]
    by (simp add: sample_defs mapper_defs)
qed

text \<open>
  C3. At every index of the version list, \<open>referenceable\<close> of the output version is
  \<open>storage\<close> of the input version, and \<open>served\<close> is \<open>served\<close>.
\<close>

theorem referenceable_and_served_copied:
  "\<exists>xrd. CRDToXRDv2 marshal crd = Inr xrd \<and>
     (\<forall>i<length (crds_Versions (crd_Spec crd)).
        xrdv_Referenceable (xrds_Versions (xrd_Spec xrd) ! i) =
          crdv_Storage (crds_Versions (crd_Spec crd) ! i) \<and>
        xrdv_Served (xrds_Versions (xrd_Spec xrd) ! i) =
          crdv_Served (crds_Versions (crd_Spec crd) ! i))"
proof -
  obtain xrd where x: "CRDToXRDv2 marshal crd = Inr xrd"
    "xrds_Versions (xrd_Spec xrd) = map (convertVersions_body marshal) (crds_Versions (crd_Spec crd))"
    using CRDToXRDv2_versions by blast
  have "\<forall>i<length (crds_Versions (crd_Spec crd)).
        xrdv_Referenceable (xrds_Versions (xrd_Spec xrd) ! i) =
          crdv_Storage (crds_Versions (crd_Spec crd) ! i) \<and>
        xrdv_Served (xrds_Versions (xrd_Spec xrd) ! i) =
          crdv_Served (crds_Versions (crd_Spec crd) ! i)"
    using x(2) by (simp add: convertVersions_body_fields)
  then show ?thesis using x(1) by blast
qed

text \<open>On the sample CRD only the second version is stored and served.\<close>

theorem referenceable_and_served_copied_witness:
  "(1::nat) < length (crds_Versions (crd_Spec sample_crd)) \<and>
   crdv_Storage (crds_Versions (crd_Spec sample_crd) ! 1) \<and>
   \<not> crdv_Storage (crds_Versions (crd_Spec sample_crd) ! 0) \<and>
   (\<exists>xrd. CRDToXRDv2 sample_marshal sample_crd = Inr xrd \<and>
      xrdv_Referenceable (xrds_Versions (xrd_Spec xrd) ! 1) \<and>
      \<not> xrdv_Referenceable (xrds_Versions (xrd_Spec xrd) ! 0) \<and>
      xrdv_Served (xrds_Versions (xrd_Spec xrd) ! 1) \<and>
      \<not> xrdv_Served (xrds_Versions (xrd_Spec xrd) ! 0))"
  using referenceable_and_served_copied [of sample_marshal sample_crd]
  by (simp add: sample_defs mapper_defs)

subsection \<open>Errors of the mapper\<close>

text \<open>
  C4. \<open>CRDToXRDv2\<close> returns an XRD and a nil error for every CRD, with one output version
  per input version. Where the encoder fails on the schema of a version, the output
  version is still there, under the name of the input version, and its schema is nil.
\<close>

theorem mapper_never_fails:
  "\<exists>xrd. CRDToXRDv2 marshal crd = Inr xrd \<and>
     length (xrds_Versions (xrd_Spec xrd)) = length (crds_Versions (crd_Spec crd)) \<and>
     (\<forall>i<length (crds_Versions (crd_Spec crd)). \<forall>validation schema err.
        crdv_Schema (crds_Versions (crd_Spec crd) ! i) = Some validation \<and>
        crv_OpenAPIV3Schema validation = Some schema \<and> marshal schema = Inl err \<longrightarrow>
        xrdv_Schema (xrds_Versions (xrd_Spec xrd) ! i) = None \<and>
        xrdv_Name (xrds_Versions (xrd_Spec xrd) ! i) = crdv_Name (crds_Versions (crd_Spec crd) ! i))"
proof -
  obtain xrd where x: "CRDToXRDv2 marshal crd = Inr xrd"
    "xrds_Versions (xrd_Spec xrd) = map (convertVersions_body marshal) (crds_Versions (crd_Spec crd))"
    using CRDToXRDv2_versions by blast
  have "length (xrds_Versions (xrd_Spec xrd)) = length (crds_Versions (crd_Spec crd))"
    using x(2) by simp
  moreover have "\<forall>i<length (crds_Versions (crd_Spec crd)). \<forall>validation schema err.
        crdv_Schema (crds_Versions (crd_Spec crd) ! i) = Some validation \<and>
        crv_OpenAPIV3Schema validation = Some schema \<and> marshal schema = Inl err \<longrightarrow>
        xrdv_Schema (xrds_Versions (xrd_Spec xrd) ! i) = None \<and>
        xrdv_Name (xrds_Versions (xrd_Spec xrd) ! i) = crdv_Name (crds_Versions (crd_Spec crd) ! i)"
    using x(2) by (simp add: convertVersions_body_fields convertSchema_def)
  ultimately show ?thesis using x(1) by blast
qed

text \<open>The first version of the sample CRD has the schema the sample encoder rejects.\<close>

theorem mapper_never_fails_witness:
  "(0::nat) < length (crds_Versions (crd_Spec sample_crd)) \<and>
   crdv_Schema (crds_Versions (crd_Spec sample_crd) ! 0) = Some \<lparr>crv_OpenAPIV3Schema = Some ''bad''\<rparr> \<and>
   sample_marshal ''bad'' = Inl (ErrorString ''json: unsupported value'') \<and>
   (\<exists>xrd. CRDToXRDv2 sample_marshal sample_crd = Inr xrd \<and>
      length (xrds_Versions (xrd_Spec xrd)) = 2 \<and>
      xrdv_Schema (xrds_Versions (xrd_Spec xrd) ! 0) = None \<and>
      xrdv_Name (xrds_Versions (xrd_Spec xrd) ! 0) = ''v1'')"
  using mapper_never_fails [of sample_marshal sample_crd]
  by (simp add: sample_defs mapper_defs)

subsection \<open>Written documents\<close>

text \<open>
  C5. No document that a run of \<open>Generate\<close> adds to the written files has a top-level
  \<open>status\<close> key, whatever the context, the configuration and the CRDs are: the transform
  handed to the writer, \<open>removeXRDStatus\<close>, returns a nil error and deletes that key from
  the map, leaving every other key as it was.
\<close>

theorem written_documents_have_no_status:
  "(\<forall>f\<in>set (drop (length (written w)) (written (snd (Generate marshal g ctx w)))).
      \<forall>d\<in>set (file_Documents f). d ''status'' = None) \<and>
   fst (removeXRDStatus obj) = None \<and>
   snd (removeXRDStatus obj) ''status'' = None \<and>
   (\<forall>k. k \<noteq> ''status'' \<longrightarrow> snd (removeXRDStatus obj) k = obj k)"
proof -
  obtain new where n: "written (snd (Generate marshal g ctx w)) = written w @ new"
    "\<forall>f\<in>set new. \<forall>d\<in>set (file_Documents f). d ''status'' = None"
    using Generate_written [of marshal g ctx w] by blast
  have "drop (length (written w)) (written (snd (Generate marshal g ctx w))) = new"
    using n(1) by simp
  then show ?thesis using n(2) by (simp add: removeXRDStatus_def)
qed

text \<open>
  The sample context serializes every XRD with a \<open>status\<close> entry; the one document of
  the sample run has lost it and kept its \<open>kind\<close>.
\<close>

theorem written_documents_have_no_status_witness:
  "toDocument sample_ctx
       \<lparr>xrd_APIVersion = [], xrd_Kind = ''X'', xrd_Name = [], xrd_Annotations = Map.empty,
        xrd_Labels = Map.empty,
        xrd_Spec = \<lparr>xrds_Group = [], xrds_Names = sample_names, xrds_Versions = [],
                    xrds_Conversion = None\<rparr>\<rparr> =
     Inr [''kind'' \<mapsto> ''X'', ''status'' \<mapsto> ''{}''] \<and>
   length (written (snd (Generate sample_marshal sample_generator sample_ctx empty_world))) = 1 \<and>
   length (file_Documents
     (hd (written (snd (Generate sample_marshal sample_generator sample_ctx empty_world))))) = 1 \<and>
   hd (file_Documents
     (hd (written (snd (Generate sample_marshal sample_generator sample_ctx empty_world)))))
     ''status'' = None \<and>
   hd (file_Documents
     (hd (written (snd (Generate sample_marshal sample_generator sample_ctx empty_world)))))
     ''kind'' = Some ''CompositeResourceDefinition''"
  using written_documents_have_no_status
          [of "empty_world :: string world" sample_marshal sample_generator sample_ctx]
  by (simp add: sample_defs mapper_defs generator_defs)

subsection \<open>Deprecation\<close>

text \<open>
  C6. At every index of the version list, the output version has a deprecated flag exactly
  when the input version is deprecated. When it is, the flag is true and the warning is
  the input's warning; when it is not, the output has neither flag nor warning, also when
  the input carries a warning.
\<close>

theorem deprecation_fields_iff_deprecated:
  "\<exists>xrd. CRDToXRDv2 marshal crd = Inr xrd \<and>
     (\<forall>i<length (crds_Versions (crd_Spec crd)).
        (xrdv_Deprecated (xrds_Versions (xrd_Spec xrd) ! i) \<noteq> None) =
           crdv_Deprecated (crds_Versions (crd_Spec crd) ! i) \<and>
        (if crdv_Deprecated (crds_Versions (crd_Spec crd) ! i)
         then xrdv_Deprecated (xrds_Versions (xrd_Spec xrd) ! i) = Some True \<and>
              xrdv_DeprecationWarning (xrds_Versions (xrd_Spec xrd) ! i) =
                crdv_DeprecationWarning (crds_Versions (crd_Spec crd) ! i)
         else xrdv_Deprecated (xrds_Versions (xrd_Spec xrd) ! i) = None \<and>
              xrdv_DeprecationWarning (xrds_Versions (xrd_Spec xrd) ! i) = None))"
proof -
  obtain xrd where x: "CRDToXRDv2 marshal crd = Inr xrd"
    "xrds_Versions (xrd_Spec xrd) = map (convertVersions_body marshal) (crds_Versions (crd_Spec crd))"
    using CRDToXRDv2_versions by blast
  have "\<forall>i<length (crds_Versions (crd_Spec crd)).
        (xrdv_Deprecated (xrds_Versions (xrd_Spec xrd) ! i) \<noteq> None) =
           crdv_Deprecated (crds_Versions (crd_Spec crd) ! i) \<and>
        (if crdv_Deprecated (crds_Versions (crd_Spec crd) ! i)
         then xrdv_Deprecated (xrds_Versions (xrd_Spec xrd) ! i) = Some True \<and>
              xrdv_DeprecationWarning (xrds_Versions (xrd_Spec xrd) ! i) =
                crdv_DeprecationWarning (crds_Versions (crd_Spec crd) ! i)
         else xrdv_Deprecated (xrds_Versions (xrd_Spec xrd) ! i) = None \<and>
              xrdv_DeprecationWarning (xrds_Versions (xrd_Spec xrd) ! i) = None)"
    using x(2) by (auto simp add: convertVersions_body_fields)
  then show ?thesis using x(1) by blast
qed

text \<open>
  In the sample CRD the first version is deprecated with a warning; the second is not
  deprecated and carries a warning all the same.
\<close>

theorem deprecation_fields_iff_deprecated_witness:
  "(1::nat) < length (crds_Versions (crd_Spec sample_crd)) \<and>
   crdv_Deprecated (crds_Versions (crd_Spec sample_crd) ! 0) \<and>
   \<not> crdv_Deprecated (crds_Versions (crd_Spec sample_crd) ! 1) \<and>
   crdv_DeprecationWarning (crds_Versions (crd_Spec sample_crd) ! 1) = Some ''not shown'' \<and>
   (\<exists>xrd. CRDToXRDv2 sample_marshal sample_crd = Inr xrd \<and>
      xrdv_Deprecated (xrds_Versions (xrd_Spec xrd) ! 0) = Some True \<and>
      xrdv_DeprecationWarning (xrds_Versions (xrd_Spec xrd) ! 0) = Some ''use v2'' \<and>
      xrdv_Deprecated (xrds_Versions (xrd_Spec xrd) ! 1) = None \<and>
      xrdv_DeprecationWarning (xrds_Versions (xrd_Spec xrd) ! 1) = None)"
  using deprecation_fields_iff_deprecated [of sample_marshal sample_crd]
  by (simp add: sample_defs mapper_defs)

subsection \<open>Identity and type metadata\<close>

text \<open>
  C7. The name, the annotations, the labels, the group and the names of the XRD are those
  of the CRD.
\<close>

theorem identity_fields_copied:
  "\<exists>xrd. CRDToXRDv2 marshal crd = Inr xrd \<and>
     xrd_Name xrd = crd_Name crd \<and>
     xrd_Annotations xrd = crd_Annotations crd \<and>
     xrd_Labels xrd = crd_Labels crd \<and>
     xrds_Group (xrd_Spec xrd) = crds_Group (crd_Spec crd) \<and>
     xrds_Names (xrd_Spec xrd) = crds_Names (crd_Spec crd)"
  by (simp add: CRDToXRDv2_def Let_def)

theorem identity_fields_copied_witness:
  "\<exists>xrd. CRDToXRDv2 sample_marshal sample_crd = Inr xrd \<and>
     xrd_Name xrd = ''widgets.example.org'' \<and>
     xrd_Annotations xrd ''owner'' = Some ''team-a'' \<and>
     xrd_Labels xrd ''owner'' = None \<and>
     xrds_Group (xrd_Spec xrd) = ''example.org'' \<and>
     names_Plural (xrds_Names (xrd_Spec xrd)) = ''widgets''"
  using identity_fields_copied [of sample_marshal sample_crd]
  by (auto simp add: sample_defs)

text \<open>
  C9. Whatever the CRD is, the XRD returned has the API version of the Crossplane
  apiextensions v2 group and the kind \<open>CompositeResourceDefinition\<close>.
\<close>

theorem type_meta_is_xrd_v2:
  "\<exists>xrd. CRDToXRDv2 marshal crd = Inr xrd \<and>
     xrd_APIVersion xrd = SchemeGroupVersion_String \<and>
     xrd_Kind xrd = ''CompositeResourceDefinition''"
  by (simp add: CRDToXRDv2_def Let_def CompositeResourceDefinitionKind_def)

text \<open>Also for a CRD that \<open>Generate\<close> would reject.\<close>

theorem type_meta_is_xrd_v2_witness:
  "\<exists>xrd. CRDToXRDv2 sample_marshal sample_crd_no_storage = Inr xrd \<and>
     xrd_APIVersion xrd = ''apiextensions.crossplane.io/v2'' \<and>
     xrd_Kind xrd = ''CompositeResourceDefinition''"
  using type_meta_is_xrd_v2 [of sample_marshal sample_crd_no_storage]
  by (auto simp add: SchemeGroupVersion_String_def xpv2_Group_def xpv2_Version_def)

subsection \<open>Header text and file name\<close>

text \<open>
  C8, as amended. When a header file is configured and can be read, every file a run of
  \<open>Generate\<close> writes carries as header the contents of that file with every occurrence of
  the token \<open>" YEAR"\<close> replaced by a space followed by the configured year, and is named
  \<open><group>_<plural>.yaml\<close> after the CRD of one of the discovered kinds.
\<close>

theorem header_year_and_file_name:
  assumes "HeaderFile g \<noteq> []" and "ReadFile ctx (HeaderFile g) = Inr contents"
  shows "\<forall>f\<in>set (drop (length (written w)) (written (snd (Generate marshal g ctx w)))).
     file_Header f = ReplaceAll contents '' YEAR'' ('' '' @ Year g) \<and>
     (\<exists>groupKind\<in>set (FindKubeKinds ctx (Generate_parser g)).
        file_Name f =
          crds_Group (crd_Spec (NeedCRDFor ctx (Generate_parser g) groupKind (MaxDescLen g))) @ ''_'' @
          names_Plural (crds_Names (crd_Spec (NeedCRDFor ctx (Generate_parser g) groupKind (MaxDescLen g)))) @
          ''.yaml'')"
proof -
  have h: "Generate_header g ctx = Inr (ReplaceAll contents '' YEAR'' ('' '' @ Year g))"
    using assms by (simp add: Generate_header_def)
  obtain new where n: "written (snd (Generate marshal g ctx w)) = written w @ new"
    "\<forall>f\<in>set new. Generate_header g ctx = Inr (file_Header f) \<and>
        (\<exists>gk\<in>set (FindKubeKinds ctx (Generate_parser g)). file_Name f =
           crds_Group (crd_Spec (NeedCRDFor ctx (Generate_parser g) gk (MaxDescLen g))) @ ''_'' @
           names_Plural (crds_Names (crd_Spec (NeedCRDFor ctx (Generate_parser g) gk (MaxDescLen g)))) @ ''.yaml'')"
    using Generate_written [of marshal g ctx w] by blast
  have "drop (length (written w)) (written (snd (Generate marshal g ctx w))) = new"
    using n(1) by simp
  then show ?thesis using n(2) h by auto
qed

theorem header_year_and_file_name_witness:
  "HeaderFile sample_generator \<noteq> [] \<and>
   ReadFile sample_ctx (HeaderFile sample_generator) = Inr ''Copyright YEAR'' \<and>
   length (written (snd (Generate sample_marshal sample_generator sample_ctx empty_world))) = 1 \<and>
   file_Header (hd (written (snd (Generate sample_marshal sample_generator sample_ctx empty_world)))) =
     ''Copyright 2024'' \<and>
   file_Name (hd (written (snd (Generate sample_marshal sample_generator sample_ctx empty_world)))) =
     ''example.org_widgets.yaml''"
proof -
  have h1: "HeaderFile sample_generator \<noteq> []"
    by (simp add: sample_defs)
  have h2: "ReadFile sample_ctx (HeaderFile sample_generator) = Inr ''Copyright YEAR''"
    by (simp add: sample_defs)
  show ?thesis
    using header_year_and_file_name [OF h1 h2, of "empty_world :: string world" sample_marshal]
    by (simp add: sample_defs mapper_defs generator_defs)
qed

text \<open>
  The claim as first stated has the token replaced by the year alone. On the sample run
  the header file reads \<open>Copyright YEAR\<close> and the year is \<open>2024\<close>: the header written is
  \<open>Copyright 2024\<close>, while replacing the token by the year alone gives \<open>Copyright2024\<close>.
\<close>

theorem header_year_counterexample:
  "HeaderFile sample_generator = ''boilerplate.txt'' \<and>
   ReadFile sample_ctx ''boilerplate.txt'' = Inr ''Copyright YEAR'' \<and>
   Year sample_generator = ''2024'' \<and>
   file_Header (hd (written (snd (Generate sample_marshal sample_generator sample_ctx empty_world)))) =
     ''Copyright 2024'' \<and>
   ReplaceAll ''Copyright YEAR'' '' YEAR'' ''2024'' = ''Copyright2024'' \<and>
   file_Header (hd (written (snd (Generate sample_marshal sample_generator sample_ctx empty_world)))) \<noteq>
     ReplaceAll ''Copyright YEAR'' '' YEAR'' (Year sample_generator)"
  by (simp add: sample_defs mapper_defs generator_defs)

subsection \<open>The input is left as it was\<close>

text \<open>
  C10. A call of \<open>CRDToXRDv2\<close> leaves every object of the store as it was, the CRD it is
  given among them; the store only grows, by the XRD the call allocates.
\<close>

theorem mapper_leaves_store_unchanged:
  assumes "a < length st"
  shows "snd (CRDToXRDv2_store marshal crd st) ! a = st ! a \<and>
         length st \<le> length (snd (CRDToXRDv2_store marshal crd st))"
  using assms
  by (auto simp add: CRDToXRDv2_store_def nth_append split: option.splits object.splits sum.splits)

text \<open>A store that holds the sample CRD alone: the XRD goes to the next cell.\<close>

theorem mapper_leaves_store_unchanged_witness:
  "(0::nat) < length [CRDObject sample_crd] \<and>
   snd (CRDToXRDv2_store sample_marshal (Some 0) [CRDObject sample_crd]) ! 0 = CRDObject sample_crd \<and>
   fst (CRDToXRDv2_store sample_marshal (Some 0) [CRDObject sample_crd]) = Inr (Some 1, None) \<and>
   length (snd (CRDToXRDv2_store sample_marshal (Some 0) [CRDObject sample_crd])) = 2"
  using mapper_leaves_store_unchanged [of 0 "[CRDObject sample_crd]" sample_marshal "Some 0"]
  by (simp add: CRDToXRDv2_store_def CRDToXRDv2_def Let_def)

end
